theory Spec2Isabelle
  imports Complex_Main
begin

section \<open>Data model of calculator.go\<close>

text \<open>
  Modelled from the spec: the \<open>Target\<close> enumeration is declared outside calculator.go.
  The spec describes six observances ordered around midday; calculator.go names
  \<open>Fajr\<close>, \<open>Zuhr\<close>, \<open>Asr\<close>, \<open>Maghrib\<close> and \<open>Isha\<close>, and \<open>CalculateAll\<close> counts from
  \<open>Fajr\<close> up to \<open>Isha\<close>. The six targets are taken in the order of the day: dawn and
  sunrise before midday, afternoon, sunset and night after it (the spec's count of three
  targets before midday and two after does not fit these six). \<open>ordT\<close> is the integer
  value of a target, used wherever the code compares targets with \<open><\<close> and \<open>>\<close>; the
  theorems below depend on it through comparisons with \<open>Zuhr\<close> only.
\<close>

datatype Target = Fajr | Sunrise | Zuhr | Asr | Maghrib | Isha

fun ordT :: "Target \<Rightarrow> nat" where
  "ordT Fajr = 0"
| "ordT Sunrise = 1"
| "ordT Zuhr = 2"
| "ordT Asr = 3"
| "ordT Maghrib = 4"
| "ordT Isha = 5"

text \<open>
  Modelled from the spec: \<open>CalculationMethod\<close> is an integer type declared outside
  calculator.go. The named constants are the ones the switch of \<open>Init\<close> mentions;
  \<open>OtherMethod n\<close> stands for every other value of the underlying integer type.
\<close>

datatype CalculationMethod =
    Default | MWL | Algerian | Diyanet
  | ISNA
  | UmmAlQura
  | Gulf
  | Karachi | France18 | Tunisia
  | Egypt
  | EgyptBis | Kemenag | MUIS | JAKIM
  | UOIF
  | France15
  | Tehran
  | Jafari
  | OtherMethod nat

text \<open>
  Modelled from the spec: \<open>AsrConvention\<close> is declared outside calculator.go; \<open>Init\<close>
  distinguishes \<open>Hanafi\<close> from every other value.
\<close>

datatype AsrConvention = Hanafi | OtherConvention nat

text \<open>
  The \<open>Calculator\<close> struct, field by field. \<open>float64\<close> fields are rationals (the code
  only compares them with zero and converts them to decimals), \<open>time.Duration\<close> is an
  integer number of nanoseconds, the two correction tables are maps. The decimal type
  \<open>'d\<close> and the time type \<open>'tm\<close> belong to external libraries and stay abstract.
\<close>

record ('d, 'tm) Calculator =
  Latitude :: rat
  Longitude :: rat
  Elevation :: rat
  FajrAngle :: rat
  IshaAngle :: rat
  MaghribDuration :: int
  CalculationMethod :: CalculationMethod
  AsrConvention :: AsrConvention
  PreciseToSeconds :: bool
  IgnoreElevation :: bool
  TimeCorrection :: "Target \<rightharpoonup> int"
  AngleCorrection :: "Target \<rightharpoonup> rat"
  latitude :: 'd
  longitude :: 'd
  fajrAngle :: 'd
  ishaAngle :: 'd
  asrCoefficient :: 'd
  date :: 'tm
  timezone :: 'd
  transitTime :: 'd
  sunDeclination :: 'd

text \<open>
  What calculator.go calls but does not define, taken as parameters: the decimal
  library (\<open>NewFromFloat\<close>, \<open>New\<close>, \<open>Add\<close>, \<open>Sub\<close>, \<open>Div\<close>), the time library (the zero
  value \<open>time.Time{}\<close>, \<open>Add\<close>, \<open>Sub\<close>, and \<open>Duration.Hours\<close>, whose \<open>float64\<close> result is
  rounded and is left to the library), \<open>julianday.Convert\<close>, and the calculator's
  helper methods \<open>getTransitTime\<close>, \<open>getSunDeclination\<close>, \<open>getSunAltitude\<close>,
  \<open>getHourAngle\<close> and \<open>hoursToTime\<close>, each with the calculator as receiver.
\<close>

record ('d, 'tm) lib =
  NewFromFloat :: "rat \<Rightarrow> 'd"
  NewDec :: "int \<Rightarrow> int \<Rightarrow> 'd"
  dAdd :: "'d \<Rightarrow> 'd \<Rightarrow> 'd"
  dSub :: "'d \<Rightarrow> 'd \<Rightarrow> 'd"
  dDiv :: "'d \<Rightarrow> 'd \<Rightarrow> 'd"
  tZero :: 'tm
  tAdd :: "'tm \<Rightarrow> int \<Rightarrow> 'tm"
  tSub :: "'tm \<Rightarrow> 'tm \<Rightarrow> int"
  Hours :: "int \<Rightarrow> rat"
  Convert :: "'tm \<Rightarrow> 'd"
  getTransitTime :: "('d, 'tm) Calculator \<Rightarrow> 'd \<Rightarrow> 'd"
  getSunDeclination :: "('d, 'tm) Calculator \<Rightarrow> 'd \<Rightarrow> 'd"
  getSunAltitude :: "('d, 'tm) Calculator \<Rightarrow> Target \<Rightarrow> 'd \<Rightarrow> 'd"
  getHourAngle :: "('d, 'tm) Calculator \<Rightarrow> 'd \<Rightarrow> 'd \<Rightarrow> 'd \<times> bool"
  hoursToTime :: "('d, 'tm) Calculator \<Rightarrow> 'd \<Rightarrow> 'tm"

section \<open>Init\<close>

definition Minute :: int where
  "Minute = 60 * 1000000000"

text \<open>
  The switch on \<open>calc.CalculationMethod\<close>: the values of the locals
  \<open>(fajrAngle, ishaAngle, maghribDuration)\<close> after it. A local the matching case does
  not assign keeps its zero value, and the switch has no default case.
\<close>

fun methodDefaults :: "CalculationMethod \<Rightarrow> rat \<times> rat \<times> int" where
  "methodDefaults Default = (18, 17, 0)"
| "methodDefaults MWL = (18, 17, 0)"
| "methodDefaults Algerian = (18, 17, 0)"
| "methodDefaults Diyanet = (18, 17, 0)"
| "methodDefaults ISNA = (15, 15, 0)"
| "methodDefaults UmmAlQura = (37 / 2, 0, 90 * Minute)"
| "methodDefaults Gulf = (39 / 2, 0, 90 * Minute)"
| "methodDefaults Karachi = (18, 18, 0)"
| "methodDefaults France18 = (18, 18, 0)"
| "methodDefaults Tunisia = (18, 18, 0)"
| "methodDefaults Egypt = (39 / 2, 35 / 2, 0)"
| "methodDefaults EgyptBis = (20, 18, 0)"
| "methodDefaults Kemenag = (20, 18, 0)"
| "methodDefaults MUIS = (20, 18, 0)"
| "methodDefaults JAKIM = (20, 18, 0)"
| "methodDefaults UOIF = (12, 12, 0)"
| "methodDefaults France15 = (15, 15, 0)"
| "methodDefaults Tehran = (177 / 10, 14, 0)"
| "methodDefaults Jafari = (16, 14, 0)"
| "methodDefaults (OtherMethod n) = (0, 0, 0)"

text \<open>
  The locals \<open>(fajrAngle, ishaAngle, maghribDuration)\<close> of \<open>Init\<close> after the three
  overriding \<open>if\<close> statements, just before they are stored.
\<close>

definition resolveMethod :: "('d, 'tm) Calculator \<Rightarrow> rat \<times> rat \<times> int" where
  "resolveMethod calc =
     (case methodDefaults (CalculationMethod calc) of
        (fajrAngle0, ishaAngle0, maghribDuration0) \<Rightarrow>
          (if FajrAngle calc \<noteq> 0 then FajrAngle calc else fajrAngle0,
           if IshaAngle calc \<noteq> 0 then IshaAngle calc else ishaAngle0,
           if MaghribDuration calc \<noteq> 0 then MaghribDuration calc else maghribDuration0))"

definition Init :: "('d, 'tm) lib \<Rightarrow> ('d, 'tm) Calculator \<Rightarrow> ('d, 'tm) Calculator" where
  "Init L calc =
     (case resolveMethod calc of
        (fajrAngle1, ishaAngle1, maghribDuration1) \<Rightarrow>
          calc\<lparr> latitude := NewFromFloat L (Latitude calc),
                longitude := NewFromFloat L (Longitude calc),
                fajrAngle := NewFromFloat L fajrAngle1,
                ishaAngle := NewFromFloat L ishaAngle1,
                MaghribDuration := maghribDuration1,
                asrCoefficient :=
                  (case AsrConvention calc of
                     Hanafi \<Rightarrow> NewDec L 2 0
                   | OtherConvention n \<Rightarrow> NewDec L 1 0) \<rparr>)"

section \<open>Calculate\<close>

text \<open>
  \<open>Duration.Seconds\<close> turns a number of nanoseconds into a \<open>float64\<close>, and
  \<open>math.Round\<close> rounds a \<open>float64\<close> to the nearest integer, halves away from zero.
  The two are modelled on rationals: \<open>Seconds\<close> computes whole seconds
  plus nanoseconds divided by \<open>1e9\<close>, and the rounding of that sum to a \<open>float64\<close>
  does not move it across one half, so the test \<open>math.Round(diff) == 0\<close> comes out the
  same.
\<close>

definition Seconds :: "int \<Rightarrow> rat" where
  "Seconds d = of_int d / 1000000000"

definition mathRound :: "rat \<Rightarrow> int" where
  "mathRound x = (if 0 \<le> x then \<lfloor>x + 1 / 2\<rfloor> else - \<lfloor>- x + 1 / 2\<rfloor>)"

definition dec15 :: "('d, 'tm) lib \<Rightarrow> 'd" where
  "dec15 L = NewDec L 15 0"

text \<open>The switch on the target's position relative to \<open>Zuhr\<close>.\<close>

definition rawHours :: "('d, 'tm) lib \<Rightarrow> Target \<Rightarrow> 'd \<Rightarrow> 'd \<Rightarrow> 'd" where
  "rawHours L target transitTime0 hourAngle =
     (if ordT target > ordT Zuhr then dAdd L transitTime0 (dDiv L hourAngle (dec15 L))
      else if ordT target < ordT Zuhr then dSub L transitTime0 (dDiv L hourAngle (dec15 L))
      else transitTime0)"

text \<open>\<open>if correction, exist := calc.AngleCorrection[target]; exist { ... }\<close>\<close>

definition addAngleCorrection ::
  "('d, 'tm) lib \<Rightarrow> ('d, 'tm) Calculator \<Rightarrow> Target \<Rightarrow> 'd \<Rightarrow> 'd" where
  "addAngleCorrection L calc target hours =
     (case AngleCorrection calc target of
        Some correction \<Rightarrow> dAdd L hours (dDiv L (NewFromFloat L correction) (dec15 L))
      | None \<Rightarrow> hours)"

text \<open>\<open>if correction, exist := calc.TimeCorrection[target]; exist { ... }\<close>\<close>

definition addTimeCorrection ::
  "('d, 'tm) lib \<Rightarrow> ('d, 'tm) Calculator \<Rightarrow> Target \<Rightarrow> 'd \<Rightarrow> 'd" where
  "addTimeCorrection L calc target hours =
     (case TimeCorrection calc target of
        Some correction \<Rightarrow> dAdd L hours (NewFromFloat L (Hours L correction))
      | None \<Rightarrow> hours)"

text \<open>The value of \<open>hours\<close> when it is handed to \<open>hoursToTime\<close>.\<close>

definition targetHours ::
  "('d, 'tm) lib \<Rightarrow> ('d, 'tm) Calculator \<Rightarrow> Target \<Rightarrow> 'd \<Rightarrow> 'd \<Rightarrow> 'd" where
  "targetHours L calc target transitTime0 hourAngle =
     addTimeCorrection L calc target
       (addAngleCorrection L calc target (rawHours L target transitTime0 hourAngle))"

text \<open>\<open>math.Round(prevTargetTime.Sub(targetTime).Seconds()) == 0\<close>\<close>

definition converged :: "('d, 'tm) lib \<Rightarrow> 'tm \<Rightarrow> 'tm \<Rightarrow> bool" where
  "converged L prevTargetTime targetTime0 \<longleftrightarrow>
     mathRound (Seconds (tSub L prevTargetTime targetTime0)) = 0"

text \<open>The local variables of \<open>Calculate\<close> that live across iterations.\<close>

record ('d, 'tm) locals =
  l_transitTime :: 'd
  l_sunDeclination :: 'd
  l_sunAltitude :: 'd
  l_targetTime :: 'tm

text \<open>The locals before the loop: \<open>targetTime\<close> is the zero value of \<open>time.Time\<close>.\<close>

definition initLocals ::
  "('d, 'tm) lib \<Rightarrow> ('d, 'tm) Calculator \<Rightarrow> Target \<Rightarrow> ('d, 'tm) locals" where
  "initLocals L calc target =
     (let jd = Convert L (date calc) in
      \<lparr> l_transitTime = transitTime calc,
        l_sunDeclination = sunDeclination calc,
        l_sunAltitude = getSunAltitude L calc target jd,
        l_targetTime = tZero L \<rparr>)"

text \<open>
  The end of an iteration that did not break: the variables are recomputed at the
  iteration's candidate \<open>targetTime\<close>; the altitude only for \<open>Asr\<close>.
\<close>

definition improve ::
  "('d, 'tm) lib \<Rightarrow> ('d, 'tm) Calculator \<Rightarrow> Target \<Rightarrow> 'tm \<Rightarrow> ('d, 'tm) locals \<Rightarrow> ('d, 'tm) locals" where
  "improve L calc target targetTime0 v =
     (let jd = Convert L targetTime0 in
      \<lparr> l_transitTime = getTransitTime L calc jd,
        l_sunDeclination = getSunDeclination L calc jd,
        l_sunAltitude =
          (if target = Asr then getSunAltitude L calc target jd else l_sunAltitude v),
        l_targetTime = targetTime0 \<rparr>)"

text \<open>
  The loop \<open>for i := 0; i < 5; i++\<close> together with the final \<open>return targetTime, false\<close>.
  The result is the pair the code returns; the second component of the pair is the
  flag the code calls \<open>isNA\<close> (\<open>True\<close>: the target is not available). Beside it the
  model returns the number of iterations entered, which the program does not compute.
\<close>

function loop ::
  "('d, 'tm) lib \<Rightarrow> ('d, 'tm) Calculator \<Rightarrow> Target \<Rightarrow> nat \<Rightarrow> ('d, 'tm) locals
     \<Rightarrow> ('tm \<times> bool) \<times> nat" where
  "loop L calc target i v =
     (if i < 5 then
        (case getHourAngle L calc (l_sunAltitude v) (l_sunDeclination v) of
           (hourAngle, isNA) \<Rightarrow>
             if isNA then ((tZero L, True), i + 1)
             else
               (let hours = targetHours L calc target (l_transitTime v) hourAngle;
                    prevTargetTime = l_targetTime v;
                    targetTime0 = hoursToTime L calc hours
                in if converged L prevTargetTime targetTime0 then ((targetTime0, False), i + 1)
                   else loop L calc target (i + 1) (improve L calc target targetTime0 v)))
      else ((l_targetTime v, False), i))"
  by pat_completeness auto
termination
  by (relation "measure (\<lambda>(L, calc, target, i, v). 5 - i)") auto

declare loop.simps [simp del]

function Calculate ::
  "('d, 'tm) lib \<Rightarrow> ('d, 'tm) Calculator \<Rightarrow> Target \<Rightarrow> 'tm \<times> bool" where
  "Calculate L calc target =
     (if target = Isha \<and> MaghribDuration calc \<noteq> 0 then
        (case Calculate L calc Maghrib of
           (targetTime0, isNA) \<Rightarrow>
             if isNA then (tZero L, True)
             else (tAdd L targetTime0 (MaghribDuration calc), False))
      else fst (loop L calc target 0 (initLocals L calc target)))"
  by pat_completeness auto
termination
  by (relation "measure (\<lambda>(L, calc, target). if target = Isha then 1 else 0)") auto

declare Calculate.simps [simp del]

section \<open>CalculateAll\<close>

text \<open>The targets \<open>for target := Fajr; target <= Isha; target++\<close> visits, in order.\<close>

definition allTargets :: "Target list" where
  "allTargets = [Fajr, Sunrise, Zuhr, Asr, Maghrib, Isha]"

definition CalculateAll ::
  "('d, 'tm) lib \<Rightarrow> ('d, 'tm) Calculator \<Rightarrow> (Target \<rightharpoonup> 'tm)" where
  "CalculateAll L calc =
     foldl (\<lambda>result target.
              case Calculate L calc target of
                (targetTime0, isNA) \<Rightarrow>
                  if \<not> isNA then result(target \<mapsto> targetTime0) else result)
           Map.empty allTargets"

section \<open>The iterations of the loop, one by one\<close>

text \<open>
  Names for what one iteration does to the locals \<open>v\<close> it starts from: whether
  \<open>getHourAngle\<close> reports not applicable, the candidate time the iteration computes
  otherwise, whether the iteration reaches its last statement (it neither returns nor
  breaks), and the locals the next iteration starts from when the loop goes on.
  \<open>localsAt k\<close> are the locals at the start of iteration \<open>k\<close> (counted from zero) of a
  run of \<open>Calculate\<close> that gets there.
\<close>

definition unavailable :: "('d, 'tm) lib \<Rightarrow> ('d, 'tm) Calculator \<Rightarrow> ('d, 'tm) locals \<Rightarrow> bool" where
  "unavailable L calc v \<longleftrightarrow> snd (getHourAngle L calc (l_sunAltitude v) (l_sunDeclination v))"

definition candidate ::
  "('d, 'tm) lib \<Rightarrow> ('d, 'tm) Calculator \<Rightarrow> Target \<Rightarrow> ('d, 'tm) locals \<Rightarrow> 'tm" where
  "candidate L calc target v =
     hoursToTime L calc
       (targetHours L calc target (l_transitTime v)
          (fst (getHourAngle L calc (l_sunAltitude v) (l_sunDeclination v))))"

definition goesOn :: "('d, 'tm) lib \<Rightarrow> ('d, 'tm) Calculator \<Rightarrow> Target \<Rightarrow> ('d, 'tm) locals \<Rightarrow> bool" where
  "goesOn L calc target v \<longleftrightarrow>
     \<not> unavailable L calc v \<and> \<not> converged L (l_targetTime v) (candidate L calc target v)"

definition nextLocals ::
  "('d, 'tm) lib \<Rightarrow> ('d, 'tm) Calculator \<Rightarrow> Target \<Rightarrow> ('d, 'tm) locals \<Rightarrow> ('d, 'tm) locals" where
  "nextLocals L calc target v = improve L calc target (candidate L calc target v) v"

definition localsAt ::
  "('d, 'tm) lib \<Rightarrow> ('d, 'tm) Calculator \<Rightarrow> Target \<Rightarrow> nat \<Rightarrow> ('d, 'tm) locals" where
  "localsAt L calc target k = (nextLocals L calc target ^^ k) (initLocals L calc target)"

section \<open>The calculator as state\<close>

text \<open>
  \<open>Calculate\<close> and \<open>CalculateAll\<close> once more, with the calculator threaded through as
  state: every function returns the calculator as it stands when the function returns,
  beside its result. No statement of either method assigns to a field of \<open>calc\<close> or
  stores into one of its maps; the loop assigns to its local variables only.
\<close>

function loopS ::
  "('d, 'tm) lib \<Rightarrow> Target \<Rightarrow> nat \<Rightarrow> ('d, 'tm) locals \<Rightarrow> ('d, 'tm) Calculator
     \<Rightarrow> ('tm \<times> bool) \<times> ('d, 'tm) Calculator" where
  "loopS L target i v calc =
     (if i < 5 then
        (case getHourAngle L calc (l_sunAltitude v) (l_sunDeclination v) of
           (hourAngle, isNA) \<Rightarrow>
             if isNA then ((tZero L, True), calc)
             else
               (let hours = targetHours L calc target (l_transitTime v) hourAngle;
                    prevTargetTime = l_targetTime v;
                    targetTime0 = hoursToTime L calc hours
                in if converged L prevTargetTime targetTime0 then ((targetTime0, False), calc)
                   else loopS L target (i + 1) (improve L calc target targetTime0 v) calc))
      else ((l_targetTime v, False), calc))"
  by pat_completeness auto
termination
  by (relation "measure (\<lambda>(L, target, i, v, calc). 5 - i)") auto

declare loopS.simps [simp del]

function CalculateS ::
  "('d, 'tm) lib \<Rightarrow> Target \<Rightarrow> ('d, 'tm) Calculator
     \<Rightarrow> ('tm \<times> bool) \<times> ('d, 'tm) Calculator" where
  "CalculateS L target calc =
     (if target = Isha \<and> MaghribDuration calc \<noteq> 0 then
        (case CalculateS L Maghrib calc of
           ((targetTime0, isNA), calc1) \<Rightarrow>
             if isNA then ((tZero L, True), calc1)
             else ((tAdd L targetTime0 (MaghribDuration calc1), False), calc1))
      else loopS L target 0 (initLocals L calc target) calc)"
  by pat_completeness auto
termination
  by (relation "measure (\<lambda>(L, target, calc). if target = Isha then 1 else 0)") auto

declare CalculateS.simps [simp del]

definition CalculateAllS ::
  "('d, 'tm) lib \<Rightarrow> ('d, 'tm) Calculator \<Rightarrow> (Target \<rightharpoonup> 'tm) \<times> ('d, 'tm) Calculator" where
  "CalculateAllS L calc =
     foldl (\<lambda>(result, calc0) target.
              case CalculateS L target calc0 of
                ((targetTime0, isNA), calc1) \<Rightarrow>
                  (if \<not> isNA then result(target \<mapsto> targetTime0) else result, calc1))
           (Map.empty, calc) allTargets"

section \<open>A concrete instance\<close>

text \<open>
  An instance of the parameters on which the definitions can be run: decimals are
  rationals with exact division, a time is a number of nanoseconds since the zero
  time, \<open>Sub\<close> saturates at the range of a 64-bit duration and \<open>Hours\<close> divides
  exactly. The helper methods are
  simple ones: transit is at 12 hours, the declination stays the one of the date, and
  the hour angle of an altitude \<open>a\<close> is \<open>90 - a\<close> degrees (its value on the equator at
  an equinox). An altitude has no hour angle when the sun does not reach it that day:
  at latitude \<open>p\<close> and declination \<open>d\<close> the sun's altitude stays between
  \<open>\<bar>p + d\<bar> - 90\<close> and \<open>90 - \<bar>p - d\<bar>\<close> degrees.
\<close>

definition demoLib :: "(rat, int) lib" where
  "demoLib =
     \<lparr> NewFromFloat = (\<lambda>x. x),
       NewDec = (\<lambda>v e. of_int v * (if 0 \<le> e then 10 ^ nat e else 1 / 10 ^ nat (- e))),
       dAdd = (\<lambda>x y. x + y),
       dSub = (\<lambda>x y. x - y),
       dDiv = (\<lambda>x y. x / y),
       tZero = 0,
       tAdd = (\<lambda>t d. t + d),
       tSub = (\<lambda>t u. max (- 9223372036854775808) (min 9223372036854775807 (t - u))),
       Hours = (\<lambda>d. of_int d / 3600000000000),
       Convert = (\<lambda>t. of_int t / 86400000000000),
       getTransitTime = (\<lambda>calc jd. 12),
       getSunDeclination = (\<lambda>calc jd. sunDeclination calc),
       getSunAltitude =
         (\<lambda>calc target jd.
            case target of
              Fajr \<Rightarrow> - fajrAngle calc
            | Isha \<Rightarrow> - ishaAngle calc
            | Asr \<Rightarrow> 45
            | Zuhr \<Rightarrow> 0
            | _ \<Rightarrow> - 5 / 6),
       getHourAngle =
         (\<lambda>calc a decl.
            if a < \<bar>latitude calc + decl\<bar> - 90 \<or> 90 - \<bar>latitude calc - decl\<bar> < a
            then (0, True)
            else (90 - a, False)),
       hoursToTime = (\<lambda>calc h. date calc + \<lfloor>(h - 12) * 3600000000000\<rfloor>) \<rparr>"

text \<open>
  A configuration with a method and a latitude, and the calculator after \<open>Init\<close> and
  after a date with the given declination has been set.
\<close>

definition demoConfig :: "CalculationMethod \<Rightarrow> rat \<Rightarrow> (rat, int) Calculator" where
  "demoConfig m lat =
     \<lparr> Latitude = lat, Longitude = 0, Elevation = 0, FajrAngle = 0, IshaAngle = 0,
       MaghribDuration = 0, CalculationMethod = m, AsrConvention = OtherConvention 0,
       PreciseToSeconds = True, IgnoreElevation = False,
       TimeCorrection = Map.empty, AngleCorrection = Map.empty,
       latitude = 0, longitude = 0, fajrAngle = 0, ishaAngle = 0, asrCoefficient = 0,
       date = 0, timezone = 0, transitTime = 0, sunDeclination = 0 \<rparr>"

definition demoCalc :: "CalculationMethod \<Rightarrow> rat \<Rightarrow> rat \<Rightarrow> (rat, int) Calculator" where
  "demoCalc m lat decl =
     (Init demoLib (demoConfig m lat))
       \<lparr> date := 63846273600000000000, timezone := 0, transitTime := 12,
         sunDeclination := decl \<rparr>"

text \<open>
  The same instance with a transit time that depends on the time of day of the day
  count it is asked at, so that every candidate moves the next one: the refinement of
  the midday time then takes steps of hours and does not settle within five iterations.
\<close>

definition driftLib :: "(rat, int) lib" where
  "driftLib = demoLib\<lparr> getTransitTime := (\<lambda>calc jd. 12 + 12 * (jd - of_int \<lfloor>jd\<rfloor>)) \<rparr>"

text \<open>Per-target corrections: degrees of hour angle, and nanoseconds.\<close>

definition demoCorrections :: "(rat, int) Calculator \<Rightarrow> (rat, int) Calculator" where
  "demoCorrections calc =
     calc\<lparr> AngleCorrection := [Asr \<mapsto> 15, Isha \<mapsto> 30],
           TimeCorrection :=
             [Asr \<mapsto> 1800000000000, Maghrib \<mapsto> 120000000000, Isha \<mapsto> 600000000000] \<rparr>"

section \<open>Facts about the loop\<close>

lemma loop_step:
  "i < 5 \<Longrightarrow> getHourAngle L calc (l_sunAltitude v) (l_sunDeclination v) = (ha, na) \<Longrightarrow>
   loop L calc target i v =
     (if na then ((tZero L, True), i + 1)
      else if converged L (l_targetTime v)
                (hoursToTime L calc (targetHours L calc target (l_transitTime v) ha))
      then ((hoursToTime L calc (targetHours L calc target (l_transitTime v) ha), False), i + 1)
      else loop L calc target (i + 1)
             (improve L calc target
                (hoursToTime L calc (targetHours L calc target (l_transitTime v) ha)) v))"
  by (subst loop.simps) (simp add: Let_def)

lemma loop_exit: "\<not> i < 5 \<Longrightarrow> loop L calc target i v = ((l_targetTime v, False), i)"
  by (subst loop.simps) simp

lemma improve_sel [simp]:
  "l_targetTime (improve L calc target t v) = t"
  "l_transitTime (improve L calc target t v) = getTransitTime L calc (Convert L t)"
  "l_sunDeclination (improve L calc target t v) = getSunDeclination L calc (Convert L t)"
  "l_sunAltitude (improve L calc target t v) =
     (if target = Asr then getSunAltitude L calc target (Convert L t) else l_sunAltitude v)"
  by (simp_all add: improve_def Let_def)

text \<open>One iteration, in the vocabulary of \<open>unavailable\<close>, \<open>candidate\<close> and \<open>nextLocals\<close>.\<close>

lemma loop_iteration:
  "i < 5 \<Longrightarrow>
   loop L calc target i v =
     (if unavailable L calc v then ((tZero L, True), i + 1)
      else if converged L (l_targetTime v) (candidate L calc target v)
      then ((candidate L calc target v, False), i + 1)
      else loop L calc target (i + 1) (nextLocals L calc target v))"
  using loop_step [of i L calc v "fst (getHourAngle L calc (l_sunAltitude v) (l_sunDeclination v))"
      "snd (getHourAngle L calc (l_sunAltitude v) (l_sunDeclination v))" target]
  by (simp add: unavailable_def candidate_def nextLocals_def)

text \<open>
  How many iterations a run from iteration \<open>i\<close> enters, and what it returns: every
  iteration but the last one entered goes on, and the last one entered either reports
  not applicable, or yields the result; the result of an iteration before the fifth is
  one that has converged.
\<close>

lemma loop_count:
  "i \<le> 5 \<Longrightarrow>
   \<exists>m. snd (loop L calc target i v) = i + m \<and> i + m \<le> 5 \<and>
       (i < 5 \<longrightarrow>
          1 \<le> m \<and>
          (\<forall>k. k + 1 < m \<longrightarrow> goesOn L calc target ((nextLocals L calc target ^^ k) v)) \<and>
          (if unavailable L calc ((nextLocals L calc target ^^ (m - 1)) v)
           then fst (loop L calc target i v) = (tZero L, True)
           else fst (loop L calc target i v) =
                  (candidate L calc target ((nextLocals L calc target ^^ (m - 1)) v), False) \<and>
                (i + m < 5 \<longrightarrow>
                   converged L (l_targetTime ((nextLocals L calc target ^^ (m - 1)) v))
                     (candidate L calc target ((nextLocals L calc target ^^ (m - 1)) v)))))"
proof (induction "5 - i" arbitrary: i v)
  case 0
  then have "\<not> i < 5" by simp
  then show ?case using 0 by (simp add: loop_exit)
next
  case (Suc n)
  then have i5: "i < 5" by simp
  let ?f = "nextLocals L calc target"
  note it = loop_iteration [OF i5, of L calc target v]
  show ?case
  proof (cases "goesOn L calc target v")
    case False
    then have "snd (loop L calc target i v) = i + 1"
      using it by (auto simp: goesOn_def)
    moreover have "if unavailable L calc v then fst (loop L calc target i v) = (tZero L, True)
        else fst (loop L calc target i v) = (candidate L calc target v, False) \<and>
             converged L (l_targetTime v) (candidate L calc target v)"
      using it False by (auto simp: goesOn_def)
    ultimately show ?thesis using i5
      by (intro exI [of _ 1]) (simp split: if_splits)
  next
    case True
    then have e: "loop L calc target i v = loop L calc target (i + 1) (?f v)"
      using it by (simp add: goesOn_def)
    have n: "n = 5 - (i + 1)" and le: "i + 1 \<le> 5" using Suc.hyps(2) by simp_all
    from Suc.hyps(1) [OF n le, of "?f v"] obtain m where
      m1: "snd (loop L calc target (i + 1) (?f v)) = i + 1 + m" and
      m2: "i + 1 + m \<le> 5" and
      m3: "i + 1 < 5 \<Longrightarrow>
          1 \<le> m \<and>
          (\<forall>k. k + 1 < m \<longrightarrow> goesOn L calc target ((?f ^^ k) (?f v))) \<and>
          (if unavailable L calc ((?f ^^ (m - 1)) (?f v))
           then fst (loop L calc target (i + 1) (?f v)) = (tZero L, True)
           else fst (loop L calc target (i + 1) (?f v)) =
                  (candidate L calc target ((?f ^^ (m - 1)) (?f v)), False) \<and>
                (i + 1 + m < 5 \<longrightarrow>
                   converged L (l_targetTime ((?f ^^ (m - 1)) (?f v)))
                     (candidate L calc target ((?f ^^ (m - 1)) (?f v)))))"
      by blast
    show ?thesis
    proof (cases "i + 1 < 5")
      case False
      then have i4: "i + 1 = 5" using le by simp
      have "loop L calc target i v = ((candidate L calc target v, False), 5)"
        unfolding e using False i4 by (simp add: loop_exit nextLocals_def)
      then show ?thesis using True i4
        by (intro exI [of _ 1]) (simp add: goesOn_def)
    next
      case lt: True
      note m3' = m3 [OF lt]
      have shift: "\<And>k. (?f ^^ k) (?f v) = (?f ^^ Suc k) v"
        by (simp add: funpow_swap1)
      have pos: "1 \<le> m" using m3' by simp
      then have last: "(?f ^^ (m - 1)) (?f v) = (?f ^^ (Suc m - 1)) v"
        using shift [of "m - 1"] by simp
      have all: "\<forall>k. k + 1 < Suc m \<longrightarrow> goesOn L calc target ((?f ^^ k) v)"
      proof (intro allI impI)
        fix k assume k: "k + 1 < Suc m"
        show "goesOn L calc target ((?f ^^ k) v)"
        proof (cases k)
          case 0
          then show ?thesis using True by simp
        next
          case (Suc k')
          then have "k' + 1 < m" using k by simp
          then have "goesOn L calc target ((?f ^^ k') (?f v))" using m3' by blast
          then show ?thesis unfolding shift Suc .
        qed
      qed
      show ?thesis
        apply (intro exI [of _ "Suc m"])
        unfolding e
        using m1 m2 m3' all unfolding last
        by (simp split: if_splits)
    qed
  qed
qed

text \<open>Rounding a difference to whole seconds gives zero below half a second only.\<close>

lemma mathRound_zero_iff: "mathRound (Seconds d) = 0 \<longleftrightarrow> \<bar>d\<bar> < 500000000"
  unfolding mathRound_def Seconds_def
  by (auto simp: floor_eq_iff field_simps split: if_splits)

lemma loop_unavailable_zero:
  "snd (fst (loop L calc target i v)) \<Longrightarrow> fst (fst (loop L calc target i v)) = tZero L"
proof (induction "5 - i" arbitrary: i v)
  case 0
  then show ?case by (simp add: loop_exit)
next
  case (Suc n)
  then have i5: "i < 5" by simp
  obtain ha na where g: "getHourAngle L calc (l_sunAltitude v) (l_sunDeclination v) = (ha, na)"
    by (cases "getHourAngle L calc (l_sunAltitude v) (l_sunDeclination v)")
  let ?c = "hoursToTime L calc (targetHours L calc target (l_transitTime v) ha)"
  note st = loop_step [OF i5 g, of target]
  show ?case
  proof (cases "na \<or> converged L (l_targetTime v) ?c")
    case True
    with st Suc.prems show ?thesis by (auto split: if_splits)
  next
    case False
    with st have e: "loop L calc target i v = loop L calc target (i + 1) (improve L calc target ?c v)"
      by simp
    have "n = 5 - (i + 1)" using Suc.hyps(2) by simp
    from Suc.hyps(1) [OF this] Suc.prems show ?thesis unfolding e by simp
  qed
qed

text \<open>The two paths of \<open>Calculate\<close>.\<close>

lemma Calculate_fixed:
  "MaghribDuration calc \<noteq> 0 \<Longrightarrow>
   Calculate L calc Isha =
     (case Calculate L calc Maghrib of
        (t, isNA) \<Rightarrow> if isNA then (tZero L, True) else (tAdd L t (MaghribDuration calc), False))"
  by (subst Calculate.simps) simp

lemma Calculate_solved:
  "\<not> (target = Isha \<and> MaghribDuration calc \<noteq> 0) \<Longrightarrow>
   Calculate L calc target = fst (loop L calc target 0 (initLocals L calc target))"
  by (subst Calculate.simps) auto

lemma Calculate_unavailable_zero:
  assumes "snd (Calculate L calc target)"
  shows "fst (Calculate L calc target) = tZero L"
proof (cases "target = Isha \<and> MaghribDuration calc \<noteq> 0")
  case True
  then show ?thesis using assms
    by (cases "Calculate L calc Maghrib") (simp add: Calculate_fixed split: if_splits)
next
  case False
  then show ?thesis
    using assms loop_unavailable_zero [of L calc target 0 "initLocals L calc target"]
    by (simp add: Calculate_solved [OF False])
qed

text \<open>
  The run of the loop from the start, without the counter: some iteration \<open>k\<close> among
  the five is the last one entered, every iteration before it goes on, and iteration
  \<open>k\<close> either has no hour angle or yields the result, its own candidate, which has
  converged unless \<open>k\<close> is the fifth iteration.
\<close>

lemma loop_pinned:
  "\<exists>k<5. (\<forall>j<k. goesOn L calc target (localsAt L calc target j)) \<and>
     (if unavailable L calc (localsAt L calc target k)
      then fst (loop L calc target 0 (initLocals L calc target)) = (tZero L, True)
      else fst (loop L calc target 0 (initLocals L calc target)) =
             (candidate L calc target (localsAt L calc target k), False) \<and>
           (k < 4 \<longrightarrow>
              converged L (l_targetTime (localsAt L calc target k))
                (candidate L calc target (localsAt L calc target k))))"
proof -
  let ?v = "initLocals L calc target"
  let ?f = "nextLocals L calc target"
  have "(0::nat) \<le> 5" by simp
  from loop_count [OF this, of L calc target ?v] obtain m where
    all: "snd (loop L calc target 0 ?v) = 0 + m \<and> 0 + m \<le> 5 \<and>
       ((0::nat) < 5 \<longrightarrow>
          1 \<le> m \<and>
          (\<forall>k. k + 1 < m \<longrightarrow> goesOn L calc target ((?f ^^ k) ?v)) \<and>
          (if unavailable L calc ((?f ^^ (m - 1)) ?v)
           then fst (loop L calc target 0 ?v) = (tZero L, True)
           else fst (loop L calc target 0 ?v) =
                  (candidate L calc target ((?f ^^ (m - 1)) ?v), False) \<and>
                (0 + m < 5 \<longrightarrow>
                   converged L (l_targetTime ((?f ^^ (m - 1)) ?v))
                     (candidate L calc target ((?f ^^ (m - 1)) ?v)))))"
    ..
  then have m: "m \<le> 5" "1 \<le> m" by simp_all
  from all have on: "\<forall>k. k + 1 < m \<longrightarrow> goesOn L calc target ((?f ^^ k) ?v)"
    by simp
  from all have fin: "if unavailable L calc ((?f ^^ (m - 1)) ?v)
       then fst (loop L calc target 0 ?v) = (tZero L, True)
       else fst (loop L calc target 0 ?v) = (candidate L calc target ((?f ^^ (m - 1)) ?v), False) \<and>
            (m < 5 \<longrightarrow>
               converged L (l_targetTime ((?f ^^ (m - 1)) ?v))
                 (candidate L calc target ((?f ^^ (m - 1)) ?v)))"
    by (simp cong: if_cong)
  have k5: "m - 1 < 5" using m by simp
  have before: "\<forall>j<m - 1. goesOn L calc target (localsAt L calc target j)"
    using on by (simp add: localsAt_def)
  have lt: "m - 1 < 4 \<longleftrightarrow> m < 5" using m by auto
  show ?thesis
    using k5 before fin unfolding lt [symmetric] localsAt_def [symmetric]
    by (intro exI [of _ "m - 1"]) (simp split: if_splits)
qed

lemma Calculate_solved_pinned:
  assumes "\<not> (target = Isha \<and> MaghribDuration calc \<noteq> 0)"
    and "\<not> snd (Calculate L calc target)"
  shows "\<exists>k<5. (\<forall>j<k. goesOn L calc target (localsAt L calc target j)) \<and>
           \<not> unavailable L calc (localsAt L calc target k) \<and>
           (k < 4 \<longrightarrow>
              converged L (l_targetTime (localsAt L calc target k))
                (candidate L calc target (localsAt L calc target k))) \<and>
           Calculate L calc target = (candidate L calc target (localsAt L calc target k), False)"
proof -
  from loop_pinned [of L calc target] obtain k where
    k: "k < 5" "\<forall>j<k. goesOn L calc target (localsAt L calc target j)"
    and fin: "if unavailable L calc (localsAt L calc target k)
      then fst (loop L calc target 0 (initLocals L calc target)) = (tZero L, True)
      else fst (loop L calc target 0 (initLocals L calc target)) =
             (candidate L calc target (localsAt L calc target k), False) \<and>
           (k < 4 \<longrightarrow>
              converged L (l_targetTime (localsAt L calc target k))
                (candidate L calc target (localsAt L calc target k)))"
    by blast
  have c: "Calculate L calc target = fst (loop L calc target 0 (initLocals L calc target))"
    using assms(1) by (rule Calculate_solved)
  have u: "\<not> unavailable L calc (localsAt L calc target k)"
    using fin assms(2) unfolding c by (auto split: if_splits)
  with fin k show ?thesis unfolding c by auto
qed

text \<open>Evaluating \<open>floor\<close> on quotients of numerals.\<close>

lemma floor_rat_numeral [simp]:
  "\<lfloor>(numeral a :: rat) / numeral b\<rfloor> = numeral a div numeral b"
  "\<lfloor>- (numeral a :: rat) / numeral b\<rfloor> = - numeral a div numeral b"
  "\<lfloor>(1 :: rat) / numeral b\<rfloor> = 1 div numeral b"
  "\<lfloor>- (1 :: rat) / numeral b\<rfloor> = - 1 div numeral b"
  using floor_divide_of_int_eq [of "numeral a" "numeral b", where ?'a = rat]
    floor_divide_of_int_eq [of "- numeral a" "numeral b", where ?'a = rat]
    floor_divide_of_int_eq [of 1 "numeral b", where ?'a = rat]
    floor_divide_of_int_eq [of "- 1" "numeral b", where ?'a = rat]
  by simp_all

lemmas demo_defs = demoLib_def demoCalc_def demoConfig_def Init_def resolveMethod_def
  initLocals_def targetHours_def rawHours_def addAngleCorrection_def addTimeCorrection_def
  converged_def Seconds_def mathRound_def dec15_def improve_def Minute_def

section \<open>Init: resolving the method profile\<close>

text \<open>
  Claim C7. \<open>Init\<close> resolves the configuration field by field: for the dawn angle, the
  night angle and the post-sunset duration alike, a non-zero value supplied by the
  caller is used, and a zero value is replaced by the default of the active method;
  the choice for one field looks at that field and the method only.
\<close>

theorem Init_resolves_field_by_field:
  "fajrAngle (Init L calc) =
     NewFromFloat L (if FajrAngle calc \<noteq> 0 then FajrAngle calc
                     else fst (methodDefaults (CalculationMethod calc))) \<and>
   ishaAngle (Init L calc) =
     NewFromFloat L (if IshaAngle calc \<noteq> 0 then IshaAngle calc
                     else fst (snd (methodDefaults (CalculationMethod calc)))) \<and>
   MaghribDuration (Init L calc) =
     (if MaghribDuration calc \<noteq> 0 then MaghribDuration calc
      else snd (snd (methodDefaults (CalculationMethod calc))))"
  by (cases "methodDefaults (CalculationMethod calc)") (simp add: Init_def resolveMethod_def)

text \<open>
  The Gulf method with only the night angle supplied: the dawn angle and the duration
  come from the method, the night angle from the caller.
\<close>

theorem Init_resolves_field_by_field_witness:
  "fajrAngle (Init demoLib ((demoConfig Gulf 0)\<lparr>IshaAngle := 17\<rparr>)) = 39 / 2 \<and>
   ishaAngle (Init demoLib ((demoConfig Gulf 0)\<lparr>IshaAngle := 17\<rparr>)) = 17 \<and>
   MaghribDuration (Init demoLib ((demoConfig Gulf 0)\<lparr>IshaAngle := 17\<rparr>)) = 5400000000000"
  using Init_resolves_field_by_field [of demoLib "(demoConfig Gulf 0)\<lparr>IshaAngle := 17\<rparr>"]
  by (simp add: demoLib_def demoConfig_def Minute_def)

text \<open>
  Claim C9. When the method is none of the constants the switch of \<open>Init\<close> lists and
  the caller supplies no angle and no duration, the resolved dawn and night angles are
  both zero and no post-sunset duration is set; the angles of the \<open>Default\<close> method
  (18 and 17) are not used.
\<close>

theorem Init_unlisted_method_resolves_to_zero:
  assumes "CalculationMethod calc = OtherMethod n"
    and "FajrAngle calc = 0" and "IshaAngle calc = 0" and "MaghribDuration calc = 0"
  shows "resolveMethod calc = (0, 0, 0) \<and>
         fajrAngle (Init L calc) = NewFromFloat L 0 \<and>
         ishaAngle (Init L calc) = NewFromFloat L 0 \<and>
         MaghribDuration (Init L calc) = 0 \<and>
         resolveMethod (calc\<lparr>CalculationMethod := Default\<rparr>) = (18, 17, 0)"
  using assms by (simp add: Init_def resolveMethod_def)

theorem Init_unlisted_method_resolves_to_zero_witness:
  "CalculationMethod (demoConfig (OtherMethod 7) 0) = OtherMethod 7 \<and>
   FajrAngle (demoConfig (OtherMethod 7) 0) = 0 \<and>
   IshaAngle (demoConfig (OtherMethod 7) 0) = 0 \<and>
   MaghribDuration (demoConfig (OtherMethod 7) 0) = 0 \<and>
   fajrAngle (Init demoLib (demoConfig (OtherMethod 7) 0)) = 0 \<and>
   ishaAngle (Init demoLib (demoConfig (OtherMethod 7) 0)) = 0 \<and>
   MaghribDuration (Init demoLib (demoConfig (OtherMethod 7) 0)) = 0"
proof -
  have h: "CalculationMethod (demoConfig (OtherMethod 7) 0) = OtherMethod 7"
    "FajrAngle (demoConfig (OtherMethod 7) 0) = 0"
    "IshaAngle (demoConfig (OtherMethod 7) 0) = 0"
    "MaghribDuration (demoConfig (OtherMethod 7) 0) = 0"
    by (simp_all add: demoConfig_def)
  from Init_unlisted_method_resolves_to_zero [OF h, of demoLib] h
  show ?thesis by (simp add: demoLib_def)
qed

section \<open>Calculate: the fixed duration after sunset\<close>

text \<open>
  Claim C2. With a non-zero \<open>MaghribDuration\<close>: when \<open>Calculate\<close> returns the time \<open>t\<close>
  for \<open>Maghrib\<close> as available, it returns exactly \<open>t\<close> plus the duration for \<open>Isha\<close>, as
  available; when \<open>Maghrib\<close> is not available, \<open>Isha\<close> is not available either.
\<close>

theorem Isha_is_Maghrib_plus_duration:
  assumes "MaghribDuration calc \<noteq> 0"
  shows "(\<forall>t. Calculate L calc Maghrib = (t, False) \<longrightarrow>
              Calculate L calc Isha = (tAdd L t (MaghribDuration calc), False)) \<and>
         (snd (Calculate L calc Maghrib) \<longrightarrow> Calculate L calc Isha = (tZero L, True))"
  by (cases "Calculate L calc Maghrib") (simp add: Calculate_fixed [OF assms])

text \<open>
  Umm al-Qura (90 minutes) on the equator, where sunset is found, and at 80 degrees
  north under a declination of 23 degrees, where the sun does not set.
\<close>

theorem Isha_is_Maghrib_plus_duration_witness:
  "MaghribDuration (demoCalc UmmAlQura 0 0) = 5400000000000 \<and>
   Calculate demoLib (demoCalc UmmAlQura 0 0) Maghrib = (63846295400000000000, False) \<and>
   Calculate demoLib (demoCalc UmmAlQura 0 0) Isha = (63846300800000000000, False) \<and>
   MaghribDuration (demoCalc UmmAlQura 80 23) = 5400000000000 \<and>
   snd (Calculate demoLib (demoCalc UmmAlQura 80 23) Maghrib) \<and>
   Calculate demoLib (demoCalc UmmAlQura 80 23) Isha = (0, True)"
proof -
  have d: "MaghribDuration (demoCalc UmmAlQura 0 0) = 5400000000000"
    "MaghribDuration (demoCalc UmmAlQura 80 23) = 5400000000000"
    by (simp_all add: demo_defs)
  have m: "Calculate demoLib (demoCalc UmmAlQura 0 0) Maghrib = (63846295400000000000, False)"
    by code_simp
  have p: "snd (Calculate demoLib (demoCalc UmmAlQura 80 23) Maghrib)"
    by code_simp
  have "Calculate demoLib (demoCalc UmmAlQura 0 0) Isha = (63846300800000000000, False)"
    using Isha_is_Maghrib_plus_duration [of "demoCalc UmmAlQura 0 0" demoLib] d m
    by (simp add: demoLib_def)
  moreover have "Calculate demoLib (demoCalc UmmAlQura 80 23) Isha = (0, True)"
    using Isha_is_Maghrib_plus_duration [of "demoCalc UmmAlQura 80 23" demoLib] d p
    by (simp add: demoLib_def)
  ultimately show ?thesis using d m p by simp
qed

section \<open>CalculateAll\<close>

lemma foldl_collects:
  "foldl (\<lambda>result target.
            case f target of
              (targetTime0, isNA) \<Rightarrow> if \<not> isNA then result(target \<mapsto> targetTime0) else result)
         m xs target =
     (if target \<in> set xs \<and> \<not> snd (f target) then Some (fst (f target)) else m target)"
  by (induction xs arbitrary: m) (auto split: prod.splits)

lemma set_allTargets: "set allTargets = UNIV"
proof -
  have "target \<in> set allTargets" for target
    by (cases target) (simp_all add: allTargets_def)
  then show ?thesis by blast
qed

lemma CalculateAll_lookup:
  "CalculateAll L calc target =
     (if snd (Calculate L calc target) then None else Some (fst (Calculate L calc target)))"
  unfolding CalculateAll_def
  by (simp add: foldl_collects [of "Calculate L calc"] set_allTargets)

text \<open>
  Claim C3. The map \<open>CalculateAll\<close> returns holds a target exactly when \<open>Calculate\<close>
  reports that target available, and then under that target the very time \<open>Calculate\<close>
  returns; a map holds a key once. Targets that are not available are left out.
\<close>

theorem CalculateAll_holds_exactly_the_available:
  "dom (CalculateAll L calc) = {target. \<not> snd (Calculate L calc target)} \<and>
   (\<forall>target t. CalculateAll L calc target = Some t \<longleftrightarrow> Calculate L calc target = (t, False))"
proof -
  have "Calculate L calc target = (t, False) \<longleftrightarrow>
        \<not> snd (Calculate L calc target) \<and> fst (Calculate L calc target) = t" for target t
    by (cases "Calculate L calc target") auto
  then show ?thesis
    by (auto simp: CalculateAll_lookup dom_def split: if_splits)
qed

section \<open>Calculate: what an unavailable and an available result carry\<close>

text \<open>
  Claim C6. Whenever \<open>Calculate\<close> reports a target not available, the time beside the
  flag is the zero value of \<open>time.Time\<close>; the outcome is this pair and nothing else,
  \<open>Calculate\<close> has no other way to return. A result reported available carries the
  time that was computed: the candidate of the last iteration the loop entered, every
  iteration before it having gone on and the candidate having converged unless it is
  the one of the fifth iteration; on the fixed-duration path of \<open>Isha\<close> it is the time
  \<open>Calculate\<close> returns for \<open>Maghrib\<close>, itself available, plus the duration.
\<close>

theorem Calculate_unavailable_is_zero_time:
  "(snd (Calculate L calc target) \<longrightarrow> Calculate L calc target = (tZero L, True)) \<and>
   (\<not> snd (Calculate L calc target) \<longrightarrow>
      (if target = Isha \<and> MaghribDuration calc \<noteq> 0
       then \<not> snd (Calculate L calc Maghrib) \<and>
            Calculate L calc target =
              (tAdd L (fst (Calculate L calc Maghrib)) (MaghribDuration calc), False)
       else (\<exists>k<5.
               (\<forall>j<k. goesOn L calc target (localsAt L calc target j)) \<and>
               \<not> unavailable L calc (localsAt L calc target k) \<and>
               (k < 4 \<longrightarrow>
                  converged L (l_targetTime (localsAt L calc target k))
                    (candidate L calc target (localsAt L calc target k))) \<and>
               Calculate L calc target =
                 (candidate L calc target (localsAt L calc target k), False))))"
proof (intro conjI impI)
  assume "snd (Calculate L calc target)"
  then show "Calculate L calc target = (tZero L, True)"
    using Calculate_unavailable_zero [of L calc target]
    by (cases "Calculate L calc target") simp
next
  assume a: "\<not> snd (Calculate L calc target)"
  show "if target = Isha \<and> MaghribDuration calc \<noteq> 0
       then \<not> snd (Calculate L calc Maghrib) \<and>
            Calculate L calc target =
              (tAdd L (fst (Calculate L calc Maghrib)) (MaghribDuration calc), False)
       else (\<exists>k<5.
               (\<forall>j<k. goesOn L calc target (localsAt L calc target j)) \<and>
               \<not> unavailable L calc (localsAt L calc target k) \<and>
               (k < 4 \<longrightarrow>
                  converged L (l_targetTime (localsAt L calc target k))
                    (candidate L calc target (localsAt L calc target k))) \<and>
               Calculate L calc target =
                 (candidate L calc target (localsAt L calc target k), False))"
  proof (cases "target = Isha \<and> MaghribDuration calc \<noteq> 0")
    case False
    show ?thesis
      unfolding if_not_P [OF False] by (rule Calculate_solved_pinned [OF False a])
  next
    case True
    then have f: "Calculate L calc target =
        (case Calculate L calc Maghrib of
           (t, isNA) \<Rightarrow> if isNA then (tZero L, True)
                        else (tAdd L t (MaghribDuration calc), False))"
      by (simp add: Calculate_fixed)
    have "\<not> snd (Calculate L calc Maghrib) \<and>
        Calculate L calc target =
          (tAdd L (fst (Calculate L calc Maghrib)) (MaghribDuration calc), False)"
      using a unfolding f
      by (cases "Calculate L calc Maghrib") (auto split: if_splits)
    then show ?thesis
      unfolding if_P [OF True] .
  qed
qed

text \<open>
  Dawn at 80 degrees north at an equinox, where the sun does not get 18 degrees below
  the horizon; dawn on the equator, found in the second iteration; and the night marker
  of Umm al-Qura on the equator, 90 minutes after sunset.
\<close>

theorem Calculate_unavailable_is_zero_time_witness:
  "snd (Calculate demoLib (demoCalc MWL 80 0) Fajr) \<and>
   Calculate demoLib (demoCalc MWL 80 0) Fajr = (0, True) \<and>
   Calculate demoLib (demoCalc MWL 0 0) Fajr = (63846247680000000000, False) \<and>
   (\<exists>k<5. candidate demoLib (demoCalc MWL 0 0) Fajr
             (localsAt demoLib (demoCalc MWL 0 0) Fajr k) = 63846247680000000000) \<and>
   Calculate demoLib (demoCalc UmmAlQura 0 0) Maghrib = (63846295400000000000, False) \<and>
   Calculate demoLib (demoCalc UmmAlQura 0 0) Isha = (63846300800000000000, False)"
proof -
  have u: "snd (Calculate demoLib (demoCalc MWL 80 0) Fajr)" by code_simp
  have a: "Calculate demoLib (demoCalc MWL 0 0) Fajr = (63846247680000000000, False)"
    by code_simp
  have m: "Calculate demoLib (demoCalc UmmAlQura 0 0) Maghrib = (63846295400000000000, False)"
    by code_simp
  have i: "\<not> snd (Calculate demoLib (demoCalc UmmAlQura 0 0) Isha)"
    by code_simp
  have d: "MaghribDuration (demoCalc UmmAlQura 0 0) = 5400000000000"
    "MaghribDuration (demoCalc MWL 0 0) = 0"
    by (simp_all add: demo_defs)
  from Calculate_unavailable_is_zero_time [of demoLib "demoCalc MWL 80 0" Fajr] u
  have r1: "Calculate demoLib (demoCalc MWL 80 0) Fajr = (0, True)"
    by (simp add: demoLib_def)
  from Calculate_unavailable_is_zero_time [of demoLib "demoCalc MWL 0 0" Fajr] a
  have r2: "\<exists>k<5. candidate demoLib (demoCalc MWL 0 0) Fajr
             (localsAt demoLib (demoCalc MWL 0 0) Fajr k) = 63846247680000000000"
    by auto
  from Calculate_unavailable_is_zero_time [of demoLib "demoCalc UmmAlQura 0 0" Isha] i d(1) m
  have r3: "Calculate demoLib (demoCalc UmmAlQura 0 0) Isha = (63846300800000000000, False)"
    by (simp add: demoLib_def)
  show ?thesis
    by (intro conjI) (rule u r1 a r2 m r3)+
qed

section \<open>Calculate: the bound on the refinement\<close>

lemma localsAt_targetTime:
  "l_targetTime (localsAt L calc target 0) = tZero L"
  "l_targetTime (localsAt L calc target (Suc k)) =
     candidate L calc target (localsAt L calc target k)"
  by (simp_all add: localsAt_def initLocals_def Let_def nextLocals_def)

text \<open>
  Claim C4. The loop of \<open>Calculate\<close> enters at least one and at most five iterations.
  Every iteration before the last one entered has an hour angle and a candidate that
  has not converged, so the loop stops at the first candidate that has: a result
  returned after fewer than five iterations is a candidate that has converged, and
  after five iterations the candidate of the fifth is returned with the flag of an
  available result, converged or not. A candidate has converged when its difference
  from the previous candidate (from the zero time in the first iteration) rounds to
  zero seconds, that is, when it is below half a second. The only other way out of
  the loop is the return of an unavailable result when there is no hour angle.
\<close>

theorem loop_enters_at_most_five_iterations:
  assumes "loop L calc target 0 (initLocals L calc target) = ((t, na), n)"
  shows "1 \<le> n \<and> n \<le> 5 \<and>
         (\<forall>k. k + 1 < n \<longrightarrow> goesOn L calc target (localsAt L calc target k)) \<and>
         (na \<longleftrightarrow> unavailable L calc (localsAt L calc target (n - 1))) \<and>
         (na \<longrightarrow> t = tZero L) \<and>
         (\<not> na \<longrightarrow>
            t = candidate L calc target (localsAt L calc target (n - 1)) \<and>
            (n < 5 \<longrightarrow> converged L (l_targetTime (localsAt L calc target (n - 1))) t)) \<and>
         l_targetTime (localsAt L calc target 0) = tZero L \<and>
         (\<forall>k. l_targetTime (localsAt L calc target (Suc k)) =
               candidate L calc target (localsAt L calc target k)) \<and>
         (\<forall>p c. converged L p c \<longleftrightarrow> \<bar>tSub L p c\<bar> < 500000000) \<and>
         (\<not> (target = Isha \<and> MaghribDuration calc \<noteq> 0) \<longrightarrow>
            Calculate L calc target = (t, na))"
proof -
  from loop_count [of 0 L calc target "initLocals L calc target"] assms
  have "1 \<le> n \<and> n \<le> 5 \<and>
      (\<forall>k. k + 1 < n \<longrightarrow> goesOn L calc target (localsAt L calc target k)) \<and>
      (if unavailable L calc (localsAt L calc target (n - 1))
       then (t, na) = (tZero L, True)
       else (t, na) = (candidate L calc target (localsAt L calc target (n - 1)), False) \<and>
            (n < 5 \<longrightarrow>
               converged L (l_targetTime (localsAt L calc target (n - 1)))
                 (candidate L calc target (localsAt L calc target (n - 1)))))"
    by (auto simp: localsAt_def)
  moreover have "\<forall>p c. converged L p c \<longleftrightarrow> \<bar>tSub L p c\<bar> < 500000000"
    by (simp add: converged_def mathRound_zero_iff)
  moreover have "\<not> (target = Isha \<and> MaghribDuration calc \<noteq> 0) \<longrightarrow>
      Calculate L calc target = (t, na)"
    using assms by (auto simp: Calculate_solved)
  ultimately show ?thesis
    by (simp add: localsAt_targetTime split: if_splits)
qed

text \<open>
  Dawn on the equator converges in the second iteration. With the drifting transit
  time the candidates for midday are 0, 6, 9, 10.5 and 11.25 hours after noon: five
  iterations are entered, none of the first four stops the loop, and the fifth
  candidate is returned.
\<close>

theorem loop_enters_at_most_five_iterations_witness:
  "loop demoLib (demoCalc MWL 0 0) Fajr 0 (initLocals demoLib (demoCalc MWL 0 0) Fajr) =
     ((63846247680000000000, False), 2) \<and>
   goesOn demoLib (demoCalc MWL 0 0) Fajr (localsAt demoLib (demoCalc MWL 0 0) Fajr 0) \<and>
   converged demoLib (l_targetTime (localsAt demoLib (demoCalc MWL 0 0) Fajr 1))
     63846247680000000000 \<and>
   loop driftLib (demoCalc MWL 0 0) Zuhr 0 (initLocals driftLib (demoCalc MWL 0 0) Zuhr) =
     ((63846314100000000000, False), 5) \<and>
   goesOn driftLib (demoCalc MWL 0 0) Zuhr (localsAt driftLib (demoCalc MWL 0 0) Zuhr 3) \<and>
   candidate driftLib (demoCalc MWL 0 0) Zuhr (localsAt driftLib (demoCalc MWL 0 0) Zuhr 4) =
     63846314100000000000"
proof -
  have a: "loop demoLib (demoCalc MWL 0 0) Fajr 0 (initLocals demoLib (demoCalc MWL 0 0) Fajr) =
      ((63846247680000000000, False), 2)"
    by code_simp
  have b: "loop driftLib (demoCalc MWL 0 0) Zuhr 0 (initLocals driftLib (demoCalc MWL 0 0) Zuhr) =
      ((63846314100000000000, False), 5)"
    by code_simp
  note A = loop_enters_at_most_five_iterations [OF a]
  note B = loop_enters_at_most_five_iterations [OF b]
  from A have "\<forall>k. k + 1 < 2 \<longrightarrow>
      goesOn demoLib (demoCalc MWL 0 0) Fajr (localsAt demoLib (demoCalc MWL 0 0) Fajr k)"
    by (elim conjE)
  then have a1:
    "goesOn demoLib (demoCalc MWL 0 0) Fajr (localsAt demoLib (demoCalc MWL 0 0) Fajr 0)"
    by simp
  from A have "\<not> False \<longrightarrow>
      63846247680000000000 =
        candidate demoLib (demoCalc MWL 0 0) Fajr
          (localsAt demoLib (demoCalc MWL 0 0) Fajr (2 - 1)) \<and>
      ((2::nat) < 5 \<longrightarrow>
         converged demoLib (l_targetTime (localsAt demoLib (demoCalc MWL 0 0) Fajr (2 - 1)))
           63846247680000000000)"
    by (elim conjE)
  then have a2: "converged demoLib (l_targetTime (localsAt demoLib (demoCalc MWL 0 0) Fajr 1))
      63846247680000000000"
    by simp
  from B have "\<forall>k. k + 1 < 5 \<longrightarrow>
      goesOn driftLib (demoCalc MWL 0 0) Zuhr (localsAt driftLib (demoCalc MWL 0 0) Zuhr k)"
    by (elim conjE)
  then have b1:
    "goesOn driftLib (demoCalc MWL 0 0) Zuhr (localsAt driftLib (demoCalc MWL 0 0) Zuhr 3)"
    by simp
  from B have "\<not> False \<longrightarrow>
      63846314100000000000 =
        candidate driftLib (demoCalc MWL 0 0) Zuhr
          (localsAt driftLib (demoCalc MWL 0 0) Zuhr (5 - 1)) \<and>
      ((5::nat) < 5 \<longrightarrow>
         converged driftLib (l_targetTime (localsAt driftLib (demoCalc MWL 0 0) Zuhr (5 - 1)))
           63846314100000000000)"
    by (elim conjE)
  then have b2:
    "candidate driftLib (demoCalc MWL 0 0) Zuhr (localsAt driftLib (demoCalc MWL 0 0) Zuhr 4) =
       63846314100000000000"
    by simp
  show ?thesis
    by (intro conjI) (rule a a1 a2 b b1 b2)+
qed

section \<open>Calculate: the hours of an iteration\<close>

text \<open>
  Claim C5. In every iteration the hour value starts from the transit time: plus the
  hour angle divided by 15 for a target after \<open>Zuhr\<close>, minus it for a target before
  \<open>Zuhr\<close>, unchanged for \<open>Zuhr\<close>. Then the angle correction of the target, divided by
  15, is added when there is one, and then its time correction, in hours as
  \<open>Duration.Hours\<close> gives them, when there is one. Every iteration that has an hour angle hands this value to \<open>hoursToTime\<close>.
\<close>

theorem iteration_hours_follow_sign_rule:
  "(ordT Zuhr < ordT target \<longrightarrow>
      rawHours L target tt ha = dAdd L tt (dDiv L ha (NewDec L 15 0))) \<and>
   (ordT target < ordT Zuhr \<longrightarrow>
      rawHours L target tt ha = dSub L tt (dDiv L ha (NewDec L 15 0))) \<and>
   rawHours L Zuhr tt ha = tt \<and>
   targetHours L calc target tt ha =
     (let raw = rawHours L target tt ha;
          withAngle =
            (case AngleCorrection calc target of
               None \<Rightarrow> raw
             | Some a \<Rightarrow> dAdd L raw (dDiv L (NewFromFloat L a) (NewDec L 15 0)))
      in case TimeCorrection calc target of
           None \<Rightarrow> withAngle
         | Some d \<Rightarrow> dAdd L withAngle (NewFromFloat L (Hours L d))) \<and>
   (\<forall>i v hourAngle.
      i < 5 \<and> getHourAngle L calc (l_sunAltitude v) (l_sunDeclination v) = (hourAngle, False) \<longrightarrow>
      fst (loop L calc target i v) =
        (let targetTime0 =
               hoursToTime L calc (targetHours L calc target (l_transitTime v) hourAngle)
         in if converged L (l_targetTime v) targetTime0 then (targetTime0, False)
            else fst (loop L calc target (i + 1) (improve L calc target targetTime0 v))))"
proof -
  have p1: "ordT Zuhr < ordT target \<longrightarrow>
      rawHours L target tt ha = dAdd L tt (dDiv L ha (NewDec L 15 0))"
    by (simp add: rawHours_def dec15_def)
  have p2: "ordT target < ordT Zuhr \<longrightarrow>
      rawHours L target tt ha = dSub L tt (dDiv L ha (NewDec L 15 0))"
    by (simp add: rawHours_def dec15_def)
  have p3: "rawHours L Zuhr tt ha = tt"
    by (simp add: rawHours_def)
  have p4: "targetHours L calc target tt ha =
     (let raw = rawHours L target tt ha;
          withAngle =
            (case AngleCorrection calc target of
               None \<Rightarrow> raw
             | Some a \<Rightarrow> dAdd L raw (dDiv L (NewFromFloat L a) (NewDec L 15 0)))
      in case TimeCorrection calc target of
           None \<Rightarrow> withAngle
         | Some d \<Rightarrow> dAdd L withAngle (NewFromFloat L (Hours L d)))"
    by (simp add: targetHours_def addAngleCorrection_def addTimeCorrection_def dec15_def
        Let_def split: option.splits)
  have p6: "\<forall>i v hourAngle.
      i < 5 \<and> getHourAngle L calc (l_sunAltitude v) (l_sunDeclination v) = (hourAngle, False) \<longrightarrow>
      fst (loop L calc target i v) =
        (let targetTime0 =
               hoursToTime L calc (targetHours L calc target (l_transitTime v) hourAngle)
         in if converged L (l_targetTime v) targetTime0 then (targetTime0, False)
            else fst (loop L calc target (i + 1) (improve L calc target targetTime0 v)))"
  proof (intro allI impI, elim conjE)
    fix i :: nat and v :: "('a, 'b) locals" and hourAngle :: 'a
    assume "i < 5"
      and "getHourAngle L calc (l_sunAltitude v) (l_sunDeclination v) = (hourAngle, False)"
    from loop_step [OF this, of target]
    show "fst (loop L calc target i v) =
        (let targetTime0 =
               hoursToTime L calc (targetHours L calc target (l_transitTime v) hourAngle)
         in if converged L (l_targetTime v) targetTime0 then (targetTime0, False)
            else fst (loop L calc target (i + 1) (improve L calc target targetTime0 v)))"
      by (simp add: Let_def)
  qed
  show ?thesis
    by (intro conjI) (rule p1 p2 p3 p4 p6)+
qed

text \<open>
  The afternoon with a correction of 15 degrees and of 30 minutes: from a transit at
  12 hours and an hour angle of 45 degrees the hours are 12 + 3 + 1 + 0.5; dawn with
  an hour angle of 108 degrees is at 12 - 7.2 hours. The first iteration for the
  afternoon does not converge and goes on from the candidate at 16.5 hours.
\<close>

theorem iteration_hours_follow_sign_rule_witness:
  "rawHours demoLib Asr 12 45 = 15 \<and>
   rawHours demoLib Fajr 12 108 = 24 / 5 \<and>
   rawHours demoLib Zuhr 12 90 = 12 \<and>
   targetHours demoLib (demoCorrections (demoCalc MWL 0 0)) Asr 12 45 = 33 / 2 \<and>
   fst (loop demoLib (demoCorrections (demoCalc MWL 0 0)) Asr 0
          (initLocals demoLib (demoCorrections (demoCalc MWL 0 0)) Asr)) =
     fst (loop demoLib (demoCorrections (demoCalc MWL 0 0)) Asr 1
            (improve demoLib (demoCorrections (demoCalc MWL 0 0)) Asr 63846289800000000000
               (initLocals demoLib (demoCorrections (demoCalc MWL 0 0)) Asr)))"
proof -
  let ?c = "demoCorrections (demoCalc MWL 0 0)"
  let ?v = "initLocals demoLib ?c Asr"
  note T = iteration_hours_follow_sign_rule [of Asr demoLib 12 45 ?c]
  note F = iteration_hours_follow_sign_rule [of Fajr demoLib 12 108 ?c]
  have o: "ordT Zuhr < ordT Asr" "ordT Fajr < ordT Zuhr" by simp_all
  have n: "NewDec demoLib 15 0 = 15" by (simp add: demoLib_def)
  have ops: "dAdd demoLib x y = x + y" "dSub demoLib x y = x - y" "dDiv demoLib x y = x / y"
    "NewFromFloat demoLib x = x" for x y
    by (simp_all add: demoLib_def)
  have hrs: "Hours demoLib d = of_int d / 3600000000000" for d
    by (simp add: demoLib_def)
  from T o(1) have r1: "rawHours demoLib Asr 12 45 = 15"
    by (simp add: n ops)
  from F o(2) have r2: "rawHours demoLib Fajr 12 108 = 24 / 5"
    by (simp add: n ops)
  from T have r3: "rawHours demoLib Zuhr 12 45 = 12" by simp
  from T have "targetHours demoLib ?c Asr 12 45 =
     (let raw = rawHours demoLib Asr 12 45;
          withAngle =
            (case AngleCorrection ?c Asr of
               None \<Rightarrow> raw
             | Some a \<Rightarrow> dAdd demoLib raw (dDiv demoLib (NewFromFloat demoLib a) (NewDec demoLib 15 0)))
      in case TimeCorrection ?c Asr of
           None \<Rightarrow> withAngle
         | Some d \<Rightarrow> dAdd demoLib withAngle (NewFromFloat demoLib (Hours demoLib d)))"
    by (elim conjE)
  then have r4: "targetHours demoLib ?c Asr 12 45 = 33 / 2"
    by (simp add: r1 n ops demoCorrections_def hrs)
  have g: "(0::nat) < 5 \<and>
      getHourAngle demoLib ?c (l_sunAltitude ?v) (l_sunDeclination ?v) = (45, False)"
    by (simp add: demo_defs demoCorrections_def)
  have tt: "l_transitTime ?v = 12" "l_targetTime ?v = 0"
    by (simp_all add: demo_defs demoCorrections_def)
  have h: "hoursToTime demoLib ?c (33 / 2) = 63846289800000000000"
    by (simp add: demo_defs demoCorrections_def)
  have nc: "\<not> converged demoLib 0 63846289800000000000"
    by (simp add: converged_def demoLib_def mathRound_zero_iff)
  from T have "\<forall>i v hourAngle.
      i < 5 \<and> getHourAngle demoLib ?c (l_sunAltitude v) (l_sunDeclination v) = (hourAngle, False) \<longrightarrow>
      fst (loop demoLib ?c Asr i v) =
        (let targetTime0 =
               hoursToTime demoLib ?c (targetHours demoLib ?c Asr (l_transitTime v) hourAngle)
         in if converged demoLib (l_targetTime v) targetTime0 then (targetTime0, False)
            else fst (loop demoLib ?c Asr (i + 1) (improve demoLib ?c Asr targetTime0 v)))"
    by (elim conjE)
  from this [rule_format, OF g]
  have r5: "fst (loop demoLib ?c Asr 0 ?v) =
      fst (loop demoLib ?c Asr 1 (improve demoLib ?c Asr 63846289800000000000 ?v))"
    by (simp add: tt r4 h nc)
  have r3': "rawHours demoLib Zuhr 12 90 = 12"
    using iteration_hours_follow_sign_rule [of Asr demoLib 12 90 ?c] by simp
  show ?thesis
    by (intro conjI) (rule r1 r2 r3' r4 r5)+
qed

section \<open>Calculate and CalculateAll leave the calculator as it is\<close>

lemma loopS_loop:
  "loopS L target i v calc = (fst (loop L calc target i v), calc)"
proof (induction "5 - i" arbitrary: i v)
  case 0
  then show ?case
    by (subst loopS.simps) (simp add: loop_exit)
next
  case (Suc n)
  then have i5: "i < 5" by simp
  obtain ha na where g: "getHourAngle L calc (l_sunAltitude v) (l_sunDeclination v) = (ha, na)"
    by (cases "getHourAngle L calc (l_sunAltitude v) (l_sunDeclination v)")
  have n: "n = 5 - (i + 1)" using Suc.hyps(2) by simp
  have IH: "loopS L target (Suc i) w calc = (fst (loop L calc target (Suc i) w), calc)" for w
    using Suc.hyps(1) [OF n, of w] by simp
  show ?case
    by (subst loopS.simps) (simp add: loop_step [OF i5 g] i5 g IH Let_def)
qed

lemma CalculateS_Calculate:
  "CalculateS L target calc = (Calculate L calc target, calc)"
proof (cases "target = Isha \<and> MaghribDuration calc \<noteq> 0")
  case False
  then show ?thesis
    by (subst CalculateS.simps) (auto simp: Calculate_solved loopS_loop)
next
  case True
  have m: "CalculateS L Maghrib calc = (Calculate L calc Maghrib, calc)"
    by (subst CalculateS.simps) (simp add: Calculate_solved loopS_loop)
  from True show ?thesis
    by (subst CalculateS.simps)
      (cases "Calculate L calc Maghrib", simp add: m Calculate_fixed)
qed

lemma foldl_threads_calc:
  "foldl (\<lambda>(result, calc0) target.
            case CalculateS L target calc0 of
              ((targetTime0, isNA), calc1) \<Rightarrow>
                (if \<not> isNA then result(target \<mapsto> targetTime0) else result, calc1))
         (m, calc) xs =
   (foldl (\<lambda>result target.
             case Calculate L calc target of
               (targetTime0, isNA) \<Rightarrow>
                 if \<not> isNA then result(target \<mapsto> targetTime0) else result)
          m xs, calc)"
  by (induction xs arbitrary: m) (auto simp: CalculateS_Calculate split: prod.splits)

text \<open>
  Claim C8. \<open>Calculate\<close>, and with it \<open>CalculateAll\<close>, leaves every field of the
  calculator as it was: run with the calculator threaded through as state, each returns
  the result of the function above and the calculator it was given.
\<close>

theorem Calculate_leaves_calculator_unchanged:
  "CalculateS L target calc = (Calculate L calc target, calc) \<and>
   CalculateAllS L calc = (CalculateAll L calc, calc)"
proof -
  have "CalculateAllS L calc = (CalculateAll L calc, calc)"
    unfolding CalculateAllS_def CalculateAll_def by (rule foldl_threads_calc)
  then show ?thesis
    by (simp add: CalculateS_Calculate)
qed

section \<open>Calculate: the corrections of Isha on the fixed-duration path\<close>

text \<open>
  Two calculators on which the helper methods agree, and whose corrections for the
  target agree, run the same loop.
\<close>

lemma loop_same_calc:
  assumes "getHourAngle L calc' = getHourAngle L calc"
    and "getTransitTime L calc' = getTransitTime L calc"
    and "getSunDeclination L calc' = getSunDeclination L calc"
    and "getSunAltitude L calc' = getSunAltitude L calc"
    and "hoursToTime L calc' = hoursToTime L calc"
    and "AngleCorrection calc' target = AngleCorrection calc target"
    and "TimeCorrection calc' target = TimeCorrection calc target"
  shows "loop L calc' target i v = loop L calc target i v"
proof (induction "5 - i" arbitrary: i v)
  case 0
  then show ?case by (simp add: loop_exit)
next
  case (Suc n)
  then have i5: "i < 5" by simp
  obtain ha na where g: "getHourAngle L calc (l_sunAltitude v) (l_sunDeclination v) = (ha, na)"
    by (cases "getHourAngle L calc (l_sunAltitude v) (l_sunDeclination v)")
  then have g': "getHourAngle L calc' (l_sunAltitude v) (l_sunDeclination v) = (ha, na)"
    using assms(1) by simp
  have th: "targetHours L calc' target tt h = targetHours L calc target tt h" for tt h
    using assms(6,7) by (simp add: targetHours_def addAngleCorrection_def addTimeCorrection_def)
  have im: "improve L calc' target t w = improve L calc target t w" for t w
    using assms(2,3,4) by (simp add: improve_def cong: if_cong)
  have n: "n = 5 - (i + 1)" using Suc.hyps(2) by simp
  show ?case
    unfolding loop_step [OF i5 g] loop_step [OF i5 g']
    using Suc.hyps(1) [OF n] by (simp add: th im assms(5))
qed

text \<open>
  Claim C10. On the fixed-duration path the angle and time corrections configured for
  \<open>Isha\<close> are not applied: setting or removing them leaves the result as it is, when
  the helper methods do not read them. The time returned is the time of \<open>Maghrib\<close> plus
  the fixed duration and nothing else, and the time of \<open>Maghrib\<close> has the corrections of
  \<open>Maghrib\<close> in it: it is \<open>hoursToTime\<close> of the transit time plus the hour angle
  divided by 15, plus the angle correction of \<open>Maghrib\<close> divided by 15 when there is
  one, plus the time correction of \<open>Maghrib\<close> in hours when there is one, all taken in
  the last iteration \<open>k\<close> the loop for \<open>Maghrib\<close> entered.
\<close>

theorem Isha_fixed_duration_skips_own_corrections:
  assumes "MaghribDuration calc \<noteq> 0"
    and "calc' = calc\<lparr> AngleCorrection := (AngleCorrection calc)(Isha := a),
                        TimeCorrection := (TimeCorrection calc)(Isha := b) \<rparr>"
    and "getHourAngle L calc' = getHourAngle L calc"
    and "getTransitTime L calc' = getTransitTime L calc"
    and "getSunDeclination L calc' = getSunDeclination L calc"
    and "getSunAltitude L calc' = getSunAltitude L calc"
    and "hoursToTime L calc' = hoursToTime L calc"
  shows "Calculate L calc' Isha = Calculate L calc Isha \<and>
         (\<forall>t. Calculate L calc Isha = (t, False) \<longrightarrow>
            (\<exists>k<5.
               (\<forall>j<k. goesOn L calc Maghrib (localsAt L calc Maghrib j)) \<and>
               \<not> unavailable L calc (localsAt L calc Maghrib k) \<and>
               (k < 4 \<longrightarrow>
                  converged L (l_targetTime (localsAt L calc Maghrib k))
                    (candidate L calc Maghrib (localsAt L calc Maghrib k))) \<and>
               (let v = localsAt L calc Maghrib k;
                    hourAngle = fst (getHourAngle L calc (l_sunAltitude v) (l_sunDeclination v));
                    raw = dAdd L (l_transitTime v) (dDiv L hourAngle (NewDec L 15 0));
                    withAngle =
                      (case AngleCorrection calc Maghrib of
                         None \<Rightarrow> raw
                       | Some c \<Rightarrow> dAdd L raw (dDiv L (NewFromFloat L c) (NewDec L 15 0)));
                    hours =
                      (case TimeCorrection calc Maghrib of
                         None \<Rightarrow> withAngle
                       | Some d \<Rightarrow> dAdd L withAngle (NewFromFloat L (Hours L d)))
                in Calculate L calc Maghrib = (hoursToTime L calc hours, False) \<and>
                   t = tAdd L (hoursToTime L calc hours) (MaghribDuration calc))))"
proof (intro conjI allI impI)
  have d: "MaghribDuration calc' = MaghribDuration calc"
    and i: "initLocals L calc' Maghrib = initLocals L calc Maghrib"
    using assms(2,6) by (simp_all add: initLocals_def)
  have c: "AngleCorrection calc' Maghrib = AngleCorrection calc Maghrib"
    "TimeCorrection calc' Maghrib = TimeCorrection calc Maghrib"
    using assms(2) by simp_all
  have "Calculate L calc' Maghrib = Calculate L calc Maghrib"
    using loop_same_calc [OF assms(3,4,5,6,7) c, of 0 "initLocals L calc Maghrib"]
    by (simp add: Calculate_solved i)
  then show "Calculate L calc' Isha = Calculate L calc Isha"
    using assms(1) d by (cases "Calculate L calc Maghrib") (simp add: Calculate_fixed)
next
  fix t assume t: "Calculate L calc Isha = (t, False)"
  obtain u na where m: "Calculate L calc Maghrib = (u, na)"
    by (cases "Calculate L calc Maghrib")
  with t assms(1) have na: "\<not> na" and tu: "t = tAdd L u (MaghribDuration calc)"
    by (auto simp: Calculate_fixed split: if_splits)
  have nf: "\<not> (Maghrib = Isha \<and> MaghribDuration calc \<noteq> 0)" by simp
  have av: "\<not> snd (Calculate L calc Maghrib)" using m na by simp
  from Calculate_solved_pinned [OF nf av] obtain k where
    k: "k < 5" "\<forall>j<k. goesOn L calc Maghrib (localsAt L calc Maghrib j)"
      "\<not> unavailable L calc (localsAt L calc Maghrib k)"
      "k < 4 \<longrightarrow>
         converged L (l_targetTime (localsAt L calc Maghrib k))
           (candidate L calc Maghrib (localsAt L calc Maghrib k))"
    and r: "Calculate L calc Maghrib =
        (candidate L calc Maghrib (localsAt L calc Maghrib k), False)"
    by blast
  have e: "candidate L calc Maghrib w =
      (let hourAngle = fst (getHourAngle L calc (l_sunAltitude w) (l_sunDeclination w));
           raw = dAdd L (l_transitTime w) (dDiv L hourAngle (NewDec L 15 0));
           withAngle =
             (case AngleCorrection calc Maghrib of
                None \<Rightarrow> raw
              | Some c \<Rightarrow> dAdd L raw (dDiv L (NewFromFloat L c) (NewDec L 15 0)));
           hours =
             (case TimeCorrection calc Maghrib of
                None \<Rightarrow> withAngle
              | Some d \<Rightarrow> dAdd L withAngle (NewFromFloat L (Hours L d)))
       in hoursToTime L calc hours)" for w
    by (simp add: candidate_def targetHours_def rawHours_def addAngleCorrection_def
        addTimeCorrection_def dec15_def Let_def split: option.splits)
  have u: "u = candidate L calc Maghrib (localsAt L calc Maghrib k)"
    using m r by simp
  have "let v = localsAt L calc Maghrib k;
            hourAngle = fst (getHourAngle L calc (l_sunAltitude v) (l_sunDeclination v));
            raw = dAdd L (l_transitTime v) (dDiv L hourAngle (NewDec L 15 0));
            withAngle =
              (case AngleCorrection calc Maghrib of
                 None \<Rightarrow> raw
               | Some c \<Rightarrow> dAdd L raw (dDiv L (NewFromFloat L c) (NewDec L 15 0)));
            hours =
              (case TimeCorrection calc Maghrib of
                 None \<Rightarrow> withAngle
               | Some d \<Rightarrow> dAdd L withAngle (NewFromFloat L (Hours L d)))
        in Calculate L calc Maghrib = (hoursToTime L calc hours, False) \<and>
           t = tAdd L (hoursToTime L calc hours) (MaghribDuration calc)"
    using r tu unfolding u e [of "localsAt L calc Maghrib k"] by (simp add: Let_def)
  with k show "\<exists>k<5.
       (\<forall>j<k. goesOn L calc Maghrib (localsAt L calc Maghrib j)) \<and>
       \<not> unavailable L calc (localsAt L calc Maghrib k) \<and>
       (k < 4 \<longrightarrow>
          converged L (l_targetTime (localsAt L calc Maghrib k))
            (candidate L calc Maghrib (localsAt L calc Maghrib k))) \<and>
       (let v = localsAt L calc Maghrib k;
            hourAngle = fst (getHourAngle L calc (l_sunAltitude v) (l_sunDeclination v));
            raw = dAdd L (l_transitTime v) (dDiv L hourAngle (NewDec L 15 0));
            withAngle =
              (case AngleCorrection calc Maghrib of
                 None \<Rightarrow> raw
               | Some c \<Rightarrow> dAdd L raw (dDiv L (NewFromFloat L c) (NewDec L 15 0)));
            hours =
              (case TimeCorrection calc Maghrib of
                 None \<Rightarrow> withAngle
               | Some d \<Rightarrow> dAdd L withAngle (NewFromFloat L (Hours L d)))
        in Calculate L calc Maghrib = (hoursToTime L calc hours, False) \<and>
           t = tAdd L (hoursToTime L calc hours) (MaghribDuration calc))"
    by (intro exI [of _ k] conjI)
qed

text \<open>
  Umm al-Qura on the equator with corrections for \<open>Maghrib\<close> (two minutes) and for
  \<open>Isha\<close> (30 degrees and ten minutes): with or without the corrections of \<open>Isha\<close>, the
  time of \<open>Isha\<close> is the corrected time of \<open>Maghrib\<close> plus 90 minutes. The corrected
  time of \<open>Maghrib\<close> is two minutes after the time without corrections.
\<close>

theorem Isha_fixed_duration_skips_own_corrections_witness:
  "MaghribDuration (demoCorrections (demoCalc UmmAlQura 0 0)) = 5400000000000 \<and>
   Calculate demoLib (demoCalc UmmAlQura 0 0) Maghrib = (63846295400000000000, False) \<and>
   Calculate demoLib (demoCorrections (demoCalc UmmAlQura 0 0)) Maghrib =
     (63846295520000000000, False) \<and>
   Calculate demoLib (demoCorrections (demoCalc UmmAlQura 0 0)) Isha =
     (63846300920000000000, False) \<and>
   Calculate demoLib
     ((demoCorrections (demoCalc UmmAlQura 0 0))
        \<lparr> AngleCorrection :=
            (AngleCorrection (demoCorrections (demoCalc UmmAlQura 0 0)))(Isha := None),
          TimeCorrection :=
            (TimeCorrection (demoCorrections (demoCalc UmmAlQura 0 0)))(Isha := None) \<rparr>)
     Isha =
     (63846300920000000000, False)"
proof -
  let ?c = "demoCorrections (demoCalc UmmAlQura 0 0)"
  let ?c' = "?c\<lparr> AngleCorrection := (AngleCorrection ?c)(Isha := None),
                  TimeCorrection := (TimeCorrection ?c)(Isha := None) \<rparr>"
  have d: "MaghribDuration ?c = 5400000000000"
    by (simp add: demo_defs demoCorrections_def)
  have d0: "MaghribDuration ?c \<noteq> 0" using d by simp
  have m: "Calculate demoLib ?c Maghrib = (63846295520000000000, False)"
    by code_simp
  have m0: "Calculate demoLib (demoCalc UmmAlQura 0 0) Maghrib = (63846295400000000000, False)"
    by code_simp
  have i: "Calculate demoLib ?c Isha = (63846300920000000000, False)"
    by code_simp
  have h: "getHourAngle demoLib ?c' = getHourAngle demoLib ?c"
    "getTransitTime demoLib ?c' = getTransitTime demoLib ?c"
    "getSunDeclination demoLib ?c' = getSunDeclination demoLib ?c"
    "getSunAltitude demoLib ?c' = getSunAltitude demoLib ?c"
    "hoursToTime demoLib ?c' = hoursToTime demoLib ?c"
    by (simp_all add: demoLib_def cong: Target.case_cong if_cong)
  from Isha_fixed_duration_skips_own_corrections [OF d0 refl h]
  have "Calculate demoLib ?c' Isha = Calculate demoLib ?c Isha"
    by (elim conjE)
  with d m m0 i show ?thesis by simp
qed

end
